theory Spec2Isabelle
  imports Main "HOL-Library.Word"
begin

section \<open>JetStream account layer of the NATS server (server/jetstream.go)\<close>

text \<open>
  A shallow embedding of the resource ledger, the per-stream admission check, the stream
  templates with their dispatcher, and the recovery scan of \<^verbatim>\<open>server/jetstream.go\<close>.
  Go's \<^verbatim>\<open>int64\<close> is a 64-bit word: addition and subtraction wrap, and comparisons
  read the word as two's complement (\<open><s\<close>, \<open>\<le>s\<close>). Go's \<^verbatim>\<open>int\<close> fields are only
  ever compared in this file (one is converted to \<^verbatim>\<open>int64\<close>), so they are
  \<^typ>\<open>int\<close>. A \<^verbatim>\<open>uint32\<close> is a 32-bit word read with \<^term>\<open>unat\<close>.
\<close>

type_synonym int64 = "64 word"
type_synonym uint32 = "32 word"

subsection \<open>Errors\<close>

text \<open>
  Each \<^verbatim>\<open>fmt.Errorf\<close> of the file is a constructor; \<open>External\<close> stands for an error
  handed back by code outside the file (the file system, the import table, the stores).
\<close>

datatype error =
    ErrAccountNotRegistered       \<comment> \<open>jetstream account not registered\<close>
  | ErrNotEnabled                 \<comment> \<open>jetstream not enabled\<close>
  | ErrAlreadyEnabledForAccount   \<comment> \<open>jetstream already enabled for account\<close>
  | ErrNotEnabledForAccount       \<comment> \<open>jetstream not enabled for account\<close>
  | ErrInsufficientMemory         \<comment> \<open>insufficient memory resources available\<close>
  | ErrInsufficientStorage        \<comment> \<open>insufficient storage resources available\<close>
  | ErrServiceImports error       \<comment> \<open>Error setting up jetstream service imports for account: ...\<close>
  | ErrCreateStreamsDir error     \<comment> \<open>could not create storage streams directory - ...\<close>
  | ErrMaxStreamsReached          \<comment> \<open>maximum number of streams reached\<close>
  | ErrReplicas int               \<comment> \<open>replicas setting of ... not allowed\<close>
  | ErrMaxConsumersExceeds        \<comment> \<open>maximum consumers exceeds account limit\<close>
  | ErrStreamNotFound             \<comment> \<open>stream not found\<close>
  | ErrTemplateConfigName         \<comment> \<open>template config name should be empty\<close>
  | ErrTemplateExists string      \<comment> \<open>template with name ... already exists\<close>
  | ErrNoTemplate                 \<comment> \<open>no template\<close>
  | ErrTemplateNotEnabled         \<comment> \<open>template not enabled\<close>
  | ErrNoSysAccount               \<comment> \<open>the server's ErrNoSysAccount\<close>
  | ErrNilTemplate                \<comment> \<open>nil stream template\<close>
  | ErrNoTemplateFound            \<comment> \<open>no template found\<close>
  | ErrDeletingTemplate error     \<comment> \<open>error deleting template from store: ...\<close>
  | NilDereference                \<comment> \<open>a run-time panic: a nil pointer or nil interface is used\<close>
  | External string

text \<open>
  A call returns an error, returns a value, or does not return because it dereferences
  nil. Where a function hands back only an optional error, the panic is the value
  \<open>Some NilDereference\<close>, which no return statement of the file produces.
\<close>

datatype 'a outcome = Panic | Failed error | Ok 'a

subsection \<open>Configuration and limits\<close>

record JetStreamConfig =
  cfgMaxMemory :: int64
  cfgMaxStore :: int64
  StoreDir :: string

record JetStreamAccountLimits =
  MaxMemory :: int64
  MaxStore :: int64
  MaxStreams :: int
  MaxConsumers :: int

text \<open>
  \<^verbatim>\<open>StorageType\<close> and \<^verbatim>\<open>StreamConfig\<close> are declared outside the file; the record has
  the fields that the file reads or writes. A \<^verbatim>\<open>*Stream\<close> handle is represented by
  the configuration it was created from.
\<close>

datatype StorageType = MemoryStorage | FileStorage

record StreamConfig =
  scName :: string
  Subjects :: "string list"
  Storage :: StorageType
  MaxBytes :: int64
  Replicas :: int
  scMaxConsumers :: int
  Template :: string

type_synonym Stream = StreamConfig

text \<open>
  In a \<^verbatim>\<open>StreamTemplateConfig\<close> the configuration is a pointer, which a decoded
  document may leave nil: \<open>tcConfig = None\<close>.
\<close>

record StreamTemplateConfig =
  tcName :: string
  tcConfig :: "StreamConfig option"
  tcMaxStreams :: uint32

text \<open>
  A \<^verbatim>\<open>StreamTemplate\<close> embeds its configuration; \<open>tc\<close> tells whether the internal
  client is set, \<open>tstreams\<close> is the list of materialized stream names.
\<close>

record StreamTemplate =
  tName :: string
  tConfig :: StreamConfig
  tMaxStreams :: uint32
  tc :: bool
  tstreams :: "string list"

text \<open>The two template stores that \<^verbatim>\<open>AddStreamTemplate\<close> can construct.\<close>

datatype TemplateStore = TemplateFileStore string | TemplateMemStore

text \<open>
  A JetStream-enabled account. \<open>account\<close> names the account it belongs to,
  \<open>templates = None\<close> is Go's nil map, \<open>store = None\<close> the nil interface value.
\<close>

record jsAccount =
  account :: string
  limits :: JetStreamAccountLimits
  jsaMemReserved :: int64
  memUsed :: int64
  jsaStoreReserved :: int64
  storeUsed :: int64
  storeDir :: string
  streams :: "string \<rightharpoonup> Stream"
  templates :: "(string \<rightharpoonup> StreamTemplate) option"
  store :: "TemplateStore option"

text \<open>
  The server-wide ledger. Go keys \<open>accounts\<close> by the account pointer; accounts are
  identified here by their name.
\<close>

record jetStream =
  config :: JetStreamConfig
  accounts :: "string \<rightharpoonup> jsAccount"
  memReserved :: int64
  storeReserved :: int64

text \<open>
  An account, as far as this file touches it: whether it is registered with a server
  (\<open>srv\<close>), whether its \<open>js\<close> pointer is set, and its service-import table, whose type
  belongs to code outside the file. While \<open>js\<close> is set it points to the object that the
  ledger holds under the account's name.
\<close>

record 'i Account =
  aName :: string
  srv :: bool
  js :: bool
  svcImports :: 'i

subsection \<open>Resource ledger\<close>

definition dynamicAccountLimits :: "jetStream \<Rightarrow> JetStreamAccountLimits" where
  "dynamicAccountLimits j =
     \<lparr>MaxMemory = cfgMaxMemory (config j), MaxStore = cfgMaxStore (config j),
      MaxStreams = -1, MaxConsumers = -1\<rparr>"

definition sufficientResources :: "jetStream \<Rightarrow> JetStreamAccountLimits option \<Rightarrow> error option" where
  "sufficientResources j lim =
     (case lim of
        None \<Rightarrow> None
      | Some l \<Rightarrow>
          if cfgMaxMemory (config j) <s memReserved j + MaxMemory l then Some ErrInsufficientMemory
          else if cfgMaxStore (config j) <s storeReserved j + MaxStore l then Some ErrInsufficientStorage
          else None)"

definition reserveResources :: "jetStream \<Rightarrow> JetStreamAccountLimits option \<Rightarrow> jetStream" where
  "reserveResources j lim =
     (case lim of
        None \<Rightarrow> j
      | Some l \<Rightarrow>
          (let j1 = (if 0 <s MaxMemory l then j\<lparr>memReserved := memReserved j + MaxMemory l\<rparr> else j)
           in if 0 <s MaxStore l then j1\<lparr>storeReserved := storeReserved j1 + MaxStore l\<rparr> else j1))"

definition releaseResources :: "jetStream \<Rightarrow> JetStreamAccountLimits option \<Rightarrow> jetStream" where
  "releaseResources j lim =
     (case lim of
        None \<Rightarrow> j
      | Some l \<Rightarrow>
          (let j1 = (if 0 <s MaxMemory l then j\<lparr>memReserved := memReserved j - MaxMemory l\<rparr> else j)
           in if 0 <s MaxStore l then j1\<lparr>storeReserved := storeReserved j1 - MaxStore l\<rparr> else j1))"


subsection \<open>Per-stream admission\<close>

text \<open>
  \<^verbatim>\<open>checkLimits\<close> receives a pointer to the configuration and writes its
  \<^verbatim>\<open>MaxConsumers\<close> field, so the model returns the configuration as the caller sees it
  afterwards, together with the error. \<open>len(jsa.streams)\<close> is the number of keys.
\<close>

definition checkLimits :: "jsAccount \<Rightarrow> StreamConfig \<Rightarrow> error option \<times> StreamConfig" where
  "checkLimits jsa cfg =
     (if 0 < MaxStreams (limits jsa) \<and> MaxStreams (limits jsa) \<le> int (card (dom (streams jsa)))
      then (Some ErrMaxStreamsReached, cfg)
      else if Replicas cfg \<noteq> 1 then (Some (ErrReplicas (Replicas cfg)), cfg)
      else if 0 < scMaxConsumers cfg \<and> MaxConsumers (limits jsa) < scMaxConsumers cfg
      then (Some ErrMaxConsumersExceeds, cfg)
      else
        (let cfg' = cfg\<lparr>scMaxConsumers := MaxConsumers (limits jsa)\<rparr> in
         if 0 <s MaxBytes cfg' then
           (let mb = MaxBytes cfg' * of_int (Replicas cfg') in
            case Storage cfg' of
              MemoryStorage \<Rightarrow>
                if MaxMemory (limits jsa) <s jsaMemReserved jsa + mb
                then (Some ErrInsufficientMemory, cfg') else (None, cfg')
            | FileStorage \<Rightarrow>
                if MaxStore (limits jsa) <s jsaStoreReserved jsa + mb
                then (Some ErrInsufficientStorage, cfg') else (None, cfg'))
         else (None, cfg')))"

subsection \<open>Collaborators\<close>

text \<open>
  Code that the file calls but that lives elsewhere in the server is a parameter of the
  model; what is proved holds for every behaviour of these functions.
  \<^item> \<open>checkStreamCfg\<close>: validation and defaulting of a stream configuration;
  \<^item> \<open>eventsEnabled\<close>, \<open>processSub\<close>: the internal client's server has a system account;
    subscribing the client to a subject under a subscription id;
  \<^item> \<open>storeStore\<close>, \<open>storeDelete\<close>: the \<^verbatim>\<open>Store\<close> and \<^verbatim>\<open>Delete\<close> methods of a
    template store;
  \<^item> \<open>AddStream\<close>: \<^verbatim>\<open>Account.AddStream\<close>, which works on the account's \<open>jsAccount\<close>
    and hands back a stream handle or an error;
  \<^item> \<open>msetDelete\<close>: \<^verbatim>\<open>Stream.Delete\<close>, likewise on the account's \<open>jsAccount\<close>.
  \<open>AddStream\<close> and \<open>msetDelete\<close> see the account's stream registry; the list of names
  inside a template object is written only by the functions of this file.
\<close>

record 'i collab =
  checkStreamCfg :: "StreamConfig \<Rightarrow> error + StreamConfig"
  eventsEnabled :: bool
  processSub :: "string \<Rightarrow> nat \<Rightarrow> error option"
  storeStore :: "TemplateStore \<Rightarrow> StreamTemplate \<Rightarrow> error option"
  storeDelete :: "TemplateStore \<Rightarrow> StreamTemplate \<Rightarrow> error option"
  AddStream :: "'i Account \<Rightarrow> jsAccount \<Rightarrow> StreamConfig \<Rightarrow> (error + Stream) \<times> jsAccount"
  msetDelete :: "Stream \<Rightarrow> jsAccount \<Rightarrow> error option \<times> jsAccount"

text \<open>What a template operation does to the outside, in the order it does it.\<close>

datatype event =
    WarnAtLimit string string        \<comment> \<open>could not create stream for account ... on subject ..., at limit\<close>
  | WarnCreateFailed string string   \<comment> \<open>could not create stream for account ... on subject ...\<close>
  | AddStreamCalled StreamConfig     \<comment> \<open>\<^verbatim>\<open>acc.AddStream(&cfg)\<close>\<close>
  | Delivered Stream string          \<comment> \<open>the message is handed to the stream's inbound path\<close>
  | StoreCalled TemplateStore string \<comment> \<open>\<^verbatim>\<open>jsa.store.Store(t)\<close>\<close>
  | StoreDeleteCalled TemplateStore string \<comment> \<open>\<^verbatim>\<open>jsa.store.Delete(t)\<close>\<close>
  | StreamDeleteCalled Stream        \<comment> \<open>\<^verbatim>\<open>mset.Delete()\<close>\<close>
  | ClientClosed                     \<comment> \<open>the deferred \<^verbatim>\<open>c.closeConnection\<close>\<close>

subsection \<open>Names, lookups\<close>

definition CanonicalName :: "string \<Rightarrow> string" where
  "CanonicalName name = map (\<lambda>c. if c = CHR ''.'' then CHR ''_'' else c) name"

definition checkForJetStream :: "'i Account \<Rightarrow> error option" where
  "checkForJetStream a =
     (if \<not> srv a then Some ErrAccountNotRegistered
      else if \<not> js a then Some ErrNotEnabledForAccount
      else None)"

text \<open>
  In the functions below \<open>jsa\<close> is the account's \<open>jsAccount\<close> object: the one a template's
  \<open>jsa\<close> pointer refers to and, while the account's \<open>js\<close> pointer is set, that one too.
\<close>

definition LookupStream :: "'i Account \<Rightarrow> jsAccount \<Rightarrow> string \<Rightarrow> error + Stream" where
  "LookupStream a jsa name =
     (if \<not> js a then Inl ErrNotEnabled
      else case streams jsa name of
             None \<Rightarrow> Inl ErrStreamNotFound
           | Some mset \<Rightarrow> Inr mset)"

definition LookupStreamTemplate :: "'i Account \<Rightarrow> jsAccount \<Rightarrow> string \<Rightarrow> error + StreamTemplate" where
  "LookupStreamTemplate a jsa name =
     (case checkForJetStream a of
        Some e \<Rightarrow> Inl e
      | None \<Rightarrow>
          (case templates jsa of
             None \<Rightarrow> Inl ErrNoTemplateFound
           | Some m \<Rightarrow>
               (case m name of
                  None \<Rightarrow> Inl ErrNoTemplateFound
                | Some t \<Rightarrow> Inr t)))"

subsection \<open>Templates: validation, dispatch, deletion, insertion\<close>

definition validateStreams :: "'i Account \<Rightarrow> jsAccount \<Rightarrow> StreamTemplate \<Rightarrow> StreamTemplate" where
  "validateStreams a jsa t =
     t\<lparr>tstreams := filter (\<lambda>sname. \<not> isl (LookupStream a jsa sname)) (tstreams t)\<rparr>"

text \<open>
  The dispatcher. \<open>t = None\<close> is a nil receiver and \<open>jsa = None\<close> a template whose \<open>jsa\<close>
  pointer is nil; \<open>a\<close> is the account that \<open>jsa.account\<close> points to. The two warnings go
  through the template's internal client \<open>c := t.tc\<close>: when that is nil the call panics at
  the warning, after what it has done to the template before.
\<close>

definition processInboundTemplateMsg ::
  "'i collab \<Rightarrow> StreamTemplate option \<Rightarrow> jsAccount option \<Rightarrow> 'i Account \<Rightarrow> string
     \<Rightarrow> error option \<times> StreamTemplate option \<times> jsAccount option \<times> event list" where
  "processInboundTemplateMsg env topt jopt a subject =
     (case topt of
        None \<Rightarrow> (None, None, jopt, [])
      | Some t \<Rightarrow>
     (case jopt of
        None \<Rightarrow> (None, Some t, None, [])
      | Some jsa \<Rightarrow>
          (let cn = CanonicalName subject in
           if streams jsa cn \<noteq> None then (None, Some t, Some jsa, [])
           else
             (let c = tc t;
                  cfg = (tConfig t)\<lparr>Template := tName t\<rparr>;
                  atLimit = (unat (tMaxStreams t) \<le> length (tstreams t));
                  t1 = (if \<not> atLimit then t\<lparr>tstreams := tstreams t @ [cn]\<rparr> else t)
              in if atLimit
                 then (if c then (None, Some t1, Some jsa, [WarnAtLimit (aName a) subject])
                       else (Some NilDereference, Some t1, Some jsa, []))
                 else
                   (let cfg1 = cfg\<lparr>scName := cn, Subjects := [subject]\<rparr> in
                    case AddStream env a jsa cfg1 of
                      (Inl err, jsa1) \<Rightarrow>
                        (if c then (None, Some (validateStreams a jsa1 t1), Some jsa1,
                                    [AddStreamCalled cfg1, WarnCreateFailed (aName a) subject])
                         else (Some NilDereference, Some (validateStreams a jsa1 t1), Some jsa1,
                               [AddStreamCalled cfg1]))
                    | (Inr mset, jsa1) \<Rightarrow>
                        (None, Some t1, Some jsa1, [AddStreamCalled cfg1, Delivered mset subject]))))))"

text \<open>The streams of a template's list that resolve, in list order.\<close>

definition liveStreams :: "'i Account \<Rightarrow> jsAccount \<Rightarrow> string list \<Rightarrow> Stream list" where
  "liveStreams a jsa names =
     concat (map (\<lambda>name. case LookupStream a jsa name of Inr mset \<Rightarrow> [mset] | Inl e \<Rightarrow> []) names)"

text \<open>The final loop of \<^verbatim>\<open>StreamTemplate.Delete\<close>, with the deletions it attempts.\<close>

fun deleteStreams ::
  "'i collab \<Rightarrow> Stream list \<Rightarrow> jsAccount \<Rightarrow> error option \<Rightarrow> error option \<times> jsAccount \<times> event list" where
  "deleteStreams env [] jsa lastErr = (lastErr, jsa, [])"
| "deleteStreams env (mset # msets) jsa lastErr =
     (case msetDelete env mset jsa of
        (Some err, jsa1) \<Rightarrow>
          (case deleteStreams env msets jsa1 (Some err) of
             (r, jsa2, evs) \<Rightarrow> (r, jsa2, StreamDeleteCalled mset # evs))
      | (None, jsa1) \<Rightarrow>
          (case deleteStreams env msets jsa1 lastErr of
             (r, jsa2, evs) \<Rightarrow> (r, jsa2, StreamDeleteCalled mset # evs)))"

text \<open>
  \<^verbatim>\<open>StreamTemplate.Delete\<close>. The deferred closing of the internal client runs at every
  return after the first, so its event ends each of those traces.
\<close>

definition Delete ::
  "'i collab \<Rightarrow> StreamTemplate option \<Rightarrow> jsAccount option \<Rightarrow> 'i Account
     \<Rightarrow> error option \<times> StreamTemplate option \<times> jsAccount option \<times> event list" where
  "Delete env topt jopt a =
     (case topt of
        None \<Rightarrow> (Some ErrNilTemplate, None, jopt, [])
      | Some t0 \<Rightarrow>
          (let closing = (if tc t0 then [ClientClosed] else []);
               t = t0\<lparr>tc := False\<rparr>
           in case jopt of
                None \<Rightarrow> (Some ErrNotEnabled, Some t, None, closing)
              | Some jsa \<Rightarrow>
                  (case templates jsa of
                     None \<Rightarrow> (Some ErrNoTemplateFound, Some t, Some jsa, closing)
                   | Some m \<Rightarrow>
                       if m (tName t) = None then (Some ErrNoTemplateFound, Some t, Some jsa, closing)
                       else
                         (let jsa1 = jsa\<lparr>templates := Some (m(tName t := None))\<rparr>;
                              msets = liveStreams a jsa1 (tstreams t)
                          in case store jsa1 of
                               None \<Rightarrow>
                                 (case deleteStreams env msets jsa1 None of
                                    (r, jsa2, evs) \<Rightarrow> (r, Some t, Some jsa2, evs @ closing))
                             | Some st \<Rightarrow>
                                 (case storeDelete env st t of
                                    Some err \<Rightarrow>
                                      (Some (ErrDeletingTemplate err), Some t, Some jsa1,
                                       StoreDeleteCalled st (tName t) # closing)
                                  | None \<Rightarrow>
                                      (case deleteStreams env msets jsa1 None of
                                         (r, jsa2, evs) \<Rightarrow>
                                           (r, Some t, Some jsa2,
                                            StoreDeleteCalled st (tName t) # evs @ closing)))))))"

definition DeleteStreamTemplate ::
  "'i collab \<Rightarrow> 'i Account \<Rightarrow> jsAccount \<Rightarrow> string \<Rightarrow> error option \<times> jsAccount \<times> event list" where
  "DeleteStreamTemplate env a jsa name =
     (case LookupStreamTemplate a jsa name of
        Inl e \<Rightarrow> (Some e, jsa, [])
      | Inr t \<Rightarrow>
          (case Delete env (Some t) (Some jsa) a of
             (r, t1, jopt, evs) \<Rightarrow> (r, (case jopt of Some jsa1 \<Rightarrow> jsa1 | None \<Rightarrow> jsa), evs)))"

text \<open>The subscription loop: the first failing \<^verbatim>\<open>processSub\<close> ends it.\<close>

fun subscribeAll :: "'i collab \<Rightarrow> string list \<Rightarrow> nat \<Rightarrow> error option" where
  "subscribeAll env [] sid = None"
| "subscribeAll env (subject # rest) sid =
     (case processSub env subject sid of
        Some err \<Rightarrow> Some err
      | None \<Rightarrow> subscribeAll env rest (Suc sid))"

definition createTemplateSubscriptions ::
  "'i collab \<Rightarrow> 'i Account \<Rightarrow> jsAccount \<Rightarrow> StreamTemplate \<Rightarrow> error option \<times> jsAccount \<times> event list" where
  "createTemplateSubscriptions env a jsa t =
     (if \<not> tc t then (Some ErrTemplateNotEnabled, jsa, [])
      else if \<not> eventsEnabled env then (Some ErrNoSysAccount, jsa, [])
      else case subscribeAll env (Subjects (tConfig t)) 1 of
             None \<Rightarrow> (None, jsa, [])
           | Some err \<Rightarrow>
               (case DeleteStreamTemplate env a jsa (tName t) of
                  (r, jsa1, evs) \<Rightarrow> (Some err, jsa1, evs)))"

text \<open>
  \<^verbatim>\<open>Account.AddStreamTemplate\<close>. \<^verbatim>\<open>createInternalJetStreamClient\<close> hands back a
  client, so the new template has \<open>tc\<close> set. Reading the name of a nil configuration
  panics, and so does calling \<^verbatim>\<open>Store\<close> on a nil store.
\<close>

definition AddStreamTemplate ::
  "'i collab \<Rightarrow> 'i Account \<Rightarrow> jsAccount \<Rightarrow> StreamTemplateConfig
     \<Rightarrow> StreamTemplate outcome \<times> jsAccount \<times> event list" where
  "AddStreamTemplate env a jsa tcfg =
     (case checkForJetStream a of
        Some e \<Rightarrow> (Failed e, jsa, [])
      | None \<Rightarrow>
     (case tcConfig tcfg of
        None \<Rightarrow> (Panic, jsa, [])
      | Some tccfg \<Rightarrow>
          if scName tccfg \<noteq> [] then (Failed ErrTemplateConfigName, jsa, [])
          else
            (case checkStreamCfg env (tccfg\<lparr>scName := ''_''\<rparr>) of
               Inl e \<Rightarrow> (Failed e, jsa, [])
             | Inr cfg \<Rightarrow>
                 (let t = \<lparr>tName = tcName tcfg, tConfig = cfg, tMaxStreams = tcMaxStreams tcfg,
                           tc = True, tstreams = []\<rparr>
                  in case (case templates jsa of
                             None \<Rightarrow>
                               Inr (jsa\<lparr>templates := Some [tName t \<mapsto> t],
                                        store := Some (if Storage cfg = FileStorage
                                                       then TemplateFileStore (storeDir jsa)
                                                       else TemplateMemStore)\<rparr>)
                           | Some m \<Rightarrow>
                               if m (tName t) \<noteq> None then Inl (ErrTemplateExists (tName t))
                               else Inr (jsa\<lparr>templates := Some (m(tName t \<mapsto> t))\<rparr>)) of
                       Inl e \<Rightarrow> (Failed e, jsa, [])
                     | Inr jsa1 \<Rightarrow>
                         (case createTemplateSubscriptions env a jsa1 t of
                            (Some e, jsa2, evs) \<Rightarrow> (Failed e, jsa2, evs)
                          | (None, jsa2, evs) \<Rightarrow>
                              (case store jsa2 of
                                 None \<Rightarrow> (Panic, jsa2, evs)
                               | Some st \<Rightarrow>
                                   (case storeStore env st t of
                                      None \<Rightarrow> (Ok t, jsa2, evs @ [StoreCalled st (tName t)])
                                    | Some e \<Rightarrow>
                                        (case Delete env (Some t) (Some jsa2) a of
                                           (r, t1, jopt, evs1) \<Rightarrow>
                                             (Failed e,
                                              (case jopt of Some jsa3 \<Rightarrow> jsa3 | None \<Rightarrow> jsa2),
                                              evs @ StoreCalled st (tName t) # evs1)))))))))"

text \<open>Recovery's registration of a stream name with its template.\<close>

definition addStreamNameToTemplate :: "jsAccount \<Rightarrow> string \<Rightarrow> string \<Rightarrow> error option \<times> jsAccount" where
  "addStreamNameToTemplate jsa tname mname =
     (case templates jsa of
        None \<Rightarrow> (Some ErrNoTemplateFound, jsa)
      | Some m \<Rightarrow>
          (case m tname of
             None \<Rightarrow> (Some ErrNoTemplateFound, jsa)
           | Some t \<Rightarrow>
               (None, jsa\<lparr>templates := Some (m(tname \<mapsto> t\<lparr>tstreams := tstreams t @ [mname]\<rparr>))\<rparr>)))"

definition checkTemplateOwnership :: "jsAccount \<Rightarrow> string \<Rightarrow> string \<Rightarrow> bool" where
  "checkTemplateOwnership jsa tname sname =
     (case templates jsa of
        None \<Rightarrow> False
      | Some m \<Rightarrow>
          (case m tname of
             None \<Rightarrow> False
           | Some t \<Rightarrow> sname \<in> set (tstreams t)))"

subsection \<open>Recovery scan\<close>

text \<open>
  What the scan finds on disk. A file is missing (\<^verbatim>\<open>os.Stat\<close> answers not-exist),
  present but unreadable, or has contents. An entity directory has a name and its two
  files \<^verbatim>\<open>meta.inf\<close> and \<^verbatim>\<open>meta.sum\<close>.
\<close>

datatype fstat = Missing | Unreadable error | Content string

record metadir =
  dname :: string
  metainf :: fstat
  metasum :: fstat

text \<open>
  The decoders and the consumer side of a stream are outside the file. \<open>hash64 p buf\<close>
  stands for the lower-case hex string of the 64-bit HighwayHash of \<open>buf\<close> under the key
  SHA-256 of the path \<open>p\<close>; the key has 32 bytes, so constructing the hasher does not
  fail. The consumer configuration is never inspected by the file and stays a type
  parameter.
\<close>

record 'c recov =
  hash64 :: "string \<Rightarrow> string \<Rightarrow> string"
  unmarshalTemplate :: "string \<Rightarrow> error + StreamTemplateConfig"
  unmarshalStream :: "string \<Rightarrow> error + StreamConfig"
  unmarshalConsumer :: "string \<Rightarrow> error + 'c"
  AddConsumer :: "Stream \<Rightarrow> 'c \<Rightarrow> error option"
  readStoredState :: "Stream \<Rightarrow> 'c \<Rightarrow> error option"

datatype kind = KTemplate | KStream | KConsumer

datatype skip =
    MissingMetafile | ReadMetafile | MissingChecksum | ReadChecksum | ChecksumMismatch
  | Unmarshal | Recreate error

text \<open>
  The scan's log: an entity is skipped with a warning (the loop's \<^verbatim>\<open>continue\<close>), or it
  is registered; two warnings do not end the entity's recovery.
\<close>

datatype rlog =
    Skipped kind string skip
  | Recovered kind string
  | WarnAddToTemplate string string
  | WarnConsumerState string

text \<open>
  Go's \<^verbatim>\<open>path.Join\<close> of two elements: empty elements are dropped, the rest is joined
  with a slash and cleaned. \<^verbatim>\<open>path.Clean\<close> drops empty and \<open>.\<close> elements, lets \<open>..\<close>
  cancel the element before it (at the root it is dropped, at the start of a relative
  path it stays), keeps the leading slash of a rooted path, and answers \<open>.\<close> for an
  empty result.
\<close>

fun splitSlash :: "string \<Rightarrow> string list" where
  "splitSlash [] = [[]]"
| "splitSlash (c # cs) =
     (if c = CHR ''/'' then [] # splitSlash cs
      else (case splitSlash cs of
              [] \<Rightarrow> [[c]]
            | x # xs \<Rightarrow> (c # x) # xs))"

fun cleanElems :: "bool \<Rightarrow> string list \<Rightarrow> string list \<Rightarrow> string list" where
  "cleanElems rooted [] acc = rev acc"
| "cleanElems rooted (e # es) acc =
     (if e = [] \<or> e = ''.'' then cleanElems rooted es acc
      else if e = ''..'' then
        (case acc of
           [] \<Rightarrow> if rooted then cleanElems rooted es [] else cleanElems rooted es [e]
         | x # xs \<Rightarrow> if x = ''..'' then cleanElems rooted es (e # acc) else cleanElems rooted es xs)
      else cleanElems rooted es (e # acc))"

fun joinSlash :: "string list \<Rightarrow> string" where
  "joinSlash [] = []"
| "joinSlash [x] = x"
| "joinSlash (x # y # ys) = x @ ''/'' @ joinSlash (y # ys)"

definition Clean :: "string \<Rightarrow> string" where
  "Clean p =
     (let rooted = (case p of [] \<Rightarrow> False | c # cs \<Rightarrow> c = CHR ''/'');
          es = cleanElems rooted (splitSlash p) []
      in if rooted then CHR ''/'' # joinSlash es
         else if es = [] then ''.''
         else joinSlash es)"

definition pathJoin :: "string \<Rightarrow> string \<Rightarrow> string" where
  "pathJoin d n =
     (if d = [] \<and> n = [] then []
      else if d = [] then Clean n
      else Clean (d @ ''/'' @ n))"

text \<open>
  Modelled from the spec: the constants \<^verbatim>\<open>tmplsDir\<close>, \<^verbatim>\<open>streamsDir\<close> and \<^verbatim>\<open>msgDir\<close>
  are declared outside the file; the on-disk layout of the spec names the directories.
\<close>

definition tmplsDir :: string where "tmplsDir = ''templates''"
definition streamsDir :: string where "streamsDir = ''streams''"
definition msgDir :: string where "msgDir = ''msgs''"

definition recoverTemplate ::
  "'i collab \<Rightarrow> 'c recov \<Rightarrow> 'i Account \<Rightarrow> string \<Rightarrow> metadir \<Rightarrow> jsAccount
     \<Rightarrow> error option \<times> jsAccount \<times> rlog list" where
  "recoverTemplate env rc a tdir d jsa =
     (case metainf d of
        Missing \<Rightarrow> (None, jsa, [Skipped KTemplate (dname d) ReadMetafile])
      | Unreadable e \<Rightarrow> (None, jsa, [Skipped KTemplate (dname d) ReadMetafile])
      | Content buf \<Rightarrow>
          (case metasum d of
             Missing \<Rightarrow> (None, jsa, [Skipped KTemplate (dname d) MissingChecksum])
           | Unreadable e \<Rightarrow> (None, jsa, [Skipped KTemplate (dname d) ReadChecksum])
           | Content csum \<Rightarrow>
               if hash64 rc tdir buf \<noteq> csum
               then (None, jsa, [Skipped KTemplate (dname d) ChecksumMismatch])
               else
                 (case unmarshalTemplate rc buf of
                    Inl e \<Rightarrow> (None, jsa, [Skipped KTemplate (dname d) Unmarshal])
                  | Inr cfg \<Rightarrow>
                      (case tcConfig cfg of
                         None \<Rightarrow> (Some NilDereference, jsa, [])
                       | Some c \<Rightarrow>
                           (case AddStreamTemplate env a jsa (cfg\<lparr>tcConfig := Some (c\<lparr>scName := []\<rparr>)\<rparr>) of
                              (Panic, jsa1, evs) \<Rightarrow> (Some NilDereference, jsa1, [])
                            | (Failed e, jsa1, evs) \<Rightarrow>
                                (None, jsa1, [Skipped KTemplate (dname d) (Recreate e)])
                            | (Ok t, jsa1, evs) \<Rightarrow> (None, jsa1, [Recovered KTemplate (dname d)]))))))"

fun recoverTemplates ::
  "'i collab \<Rightarrow> 'c recov \<Rightarrow> 'i Account \<Rightarrow> string \<Rightarrow> metadir list \<Rightarrow> jsAccount
     \<Rightarrow> error option \<times> jsAccount \<times> rlog list" where
  "recoverTemplates env rc a tdir [] jsa = (None, jsa, [])"
| "recoverTemplates env rc a tdir (d # ds) jsa =
     (case recoverTemplate env rc a tdir d jsa of
        (Some p, jsa1, lg) \<Rightarrow> (Some p, jsa1, lg)
      | (None, jsa1, lg) \<Rightarrow>
          (case recoverTemplates env rc a tdir ds jsa1 of
             (r, jsa2, lg2) \<Rightarrow> (r, jsa2, lg @ lg2)))"

definition recoverConsumer :: "'c recov \<Rightarrow> Stream \<Rightarrow> metadir \<Rightarrow> rlog list" where
  "recoverConsumer rc mset d =
     (case metainf d of
        Missing \<Rightarrow> [Skipped KConsumer (dname d) MissingMetafile]
      | Unreadable e \<Rightarrow> [Skipped KConsumer (dname d) ReadMetafile]
      | Content buf \<Rightarrow>
          if metasum d = Missing then [Skipped KConsumer (dname d) MissingChecksum]
          else
            (case unmarshalConsumer rc buf of
               Inl e \<Rightarrow> [Skipped KConsumer (dname d) Unmarshal]
             | Inr cfg \<Rightarrow>
                 (case AddConsumer rc mset cfg of
                    Some e \<Rightarrow> [Skipped KConsumer (dname d) (Recreate e)]
                  | None \<Rightarrow>
                      (case readStoredState rc mset cfg of
                         Some e \<Rightarrow> [Recovered KConsumer (dname d), WarnConsumerState (dname d)]
                       | None \<Rightarrow> [Recovered KConsumer (dname d)]))))"

definition recoverStream ::
  "'i collab \<Rightarrow> 'c recov \<Rightarrow> 'i Account \<Rightarrow> string \<Rightarrow> metadir \<times> metadir list \<Rightarrow> jsAccount
     \<Rightarrow> jsAccount \<times> rlog list" where
  "recoverStream env rc a sdir dc jsa =
     (case dc of (d, ofis) \<Rightarrow>
     (case metainf d of
        Missing \<Rightarrow> (jsa, [Skipped KStream (dname d) MissingMetafile])
      | Unreadable e \<Rightarrow> (jsa, [Skipped KStream (dname d) ReadMetafile])
      | Content buf \<Rightarrow>
          (case metasum d of
             Missing \<Rightarrow> (jsa, [Skipped KStream (dname d) MissingChecksum])
           | Unreadable e \<Rightarrow> (jsa, [Skipped KStream (dname d) ReadChecksum])
           | Content csum \<Rightarrow>
               if hash64 rc (pathJoin (pathJoin sdir (dname d)) msgDir) buf \<noteq> csum
               then (jsa, [Skipped KStream (dname d) ChecksumMismatch])
               else
                 (case unmarshalStream rc buf of
                    Inl e \<Rightarrow> (jsa, [Skipped KStream (dname d) Unmarshal])
                  | Inr cfg \<Rightarrow>
                      (case (if Template cfg \<noteq> []
                             then (case addStreamNameToTemplate jsa (Template cfg) (scName cfg) of
                                     (Some e, jsa0) \<Rightarrow> (jsa0, [WarnAddToTemplate (scName cfg) (Template cfg)])
                                   | (None, jsa0) \<Rightarrow> (jsa0, []))
                             else (jsa, [])) of
                         (jsa1, lg1) \<Rightarrow>
                           (case AddStream env a jsa1 cfg of
                              (Inl e, jsa2) \<Rightarrow> (jsa2, lg1 @ [Skipped KStream (dname d) (Recreate e)])
                            | (Inr mset, jsa2) \<Rightarrow>
                                (jsa2, lg1 @ Recovered KStream (dname d)
                                         # concat (map (recoverConsumer rc mset) ofis))))))))"

fun recoverStreams ::
  "'i collab \<Rightarrow> 'c recov \<Rightarrow> 'i Account \<Rightarrow> string \<Rightarrow> (metadir \<times> metadir list) list \<Rightarrow> jsAccount
     \<Rightarrow> jsAccount \<times> rlog list" where
  "recoverStreams env rc a sdir [] jsa = (jsa, [])"
| "recoverStreams env rc a sdir (dc # dcs) jsa =
     (case recoverStream env rc a sdir dc jsa of
        (jsa1, lg) \<Rightarrow>
          (case recoverStreams env rc a sdir dcs jsa1 of
             (jsa2, lg2) \<Rightarrow> (jsa2, lg @ lg2)))"

subsection \<open>Enabling, updating and disabling an account\<close>

text \<open>
  What the surroundings answer while an account is enabled or disabled: the import
  table's two operations, whether the \<^verbatim>\<open>streams\<close> directory is missing and what creating
  it answers, and the directory listings the scan reads (the templates directory, if it
  is there and is a directory; the stream directories, each with the entries of its
  consumers directory, as they are listed after the directory fix-up).
\<close>

record 'i host =
  AddServiceImport :: "string \<Rightarrow> 'i \<Rightarrow> error + 'i"
  removeServiceImport :: "string \<Rightarrow> 'i \<Rightarrow> 'i"
  sdirMissing :: bool
  MkdirAll :: "error option"
  tdirEntries :: "metadir list option"
  sdirEntries :: "(metadir \<times> metadir list) list"

definition allJsExports :: "string list" where
  "allJsExports =
     [''$JS.ENABLED'', ''$JS.INFO'', ''$JS.TEMPLATE.*.CREATE'', ''$JS.TEMPLATES.LIST'',
      ''$JS.TEMPLATE.*.INFO'', ''$JS.TEMPLATE.*.DELETE'', ''$JS.STREAM.*.CREATE'',
      ''$JS.STREAM.LIST'', ''$JS.STREAM.*.INFO'', ''$JS.STREAM.*.DELETE'',
      ''$JS.STREAM.*.PURGE'', ''$JS.STREAM.*.MSG.DELETE'', ''$JS.STREAM.*.CONSUMER.*.CREATE'',
      ''$JS.STREAM.*.EPHEMERAL.CONSUMER.CREATE'', ''$JS.STREAM.*.CONSUMERS'',
      ''$JS.STREAM.*.CONSUMER.*.INFO'', ''$JS.STREAM.*.CONSUMER.*.DELETE'']"

text \<open>The import loop of \<^verbatim>\<open>EnableJetStream\<close>: the first failing import ends it.\<close>

fun addImports :: "'i host \<Rightarrow> string list \<Rightarrow> 'i \<Rightarrow> error option \<times> 'i" where
  "addImports h [] i = (None, i)"
| "addImports h (export # rest) i =
     (case AddServiceImport h export i of
        Inl err \<Rightarrow> (Some err, i)
      | Inr i1 \<Rightarrow> addImports h rest i1)"

definition recoverState ::
  "'i collab \<Rightarrow> 'c recov \<Rightarrow> 'i host \<Rightarrow> 'i Account \<Rightarrow> jsAccount
     \<Rightarrow> error option \<times> jsAccount \<times> rlog list" where
  "recoverState env rc h a jsa =
     (case (case tdirEntries h of
              None \<Rightarrow> (None, jsa, [])
            | Some fis \<Rightarrow> recoverTemplates env rc a (pathJoin (storeDir jsa) tmplsDir) fis jsa) of
        (Some p, jsa1, lg) \<Rightarrow> (Some p, jsa1, lg)
      | (None, jsa1, lg) \<Rightarrow>
          (case recoverStreams env rc a (pathJoin (storeDir jsa) streamsDir) (sdirEntries h) jsa1 of
             (jsa2, lg2) \<Rightarrow> (None, jsa2, lg @ lg2)))"

text \<open>
  \<^verbatim>\<open>Account.EnableJetStream\<close>. The first argument after the parameters is the server's
  \<open>js\<close> pointer (\<open>None\<close>: JetStream is not enabled on the server). The new \<open>jsAccount\<close> is
  one object, reached from the ledger and from the account: what the scan does to it is
  seen in the ledger.
\<close>

definition EnableJetStream ::
  "'i collab \<Rightarrow> 'c recov \<Rightarrow> 'i host \<Rightarrow> jetStream option \<Rightarrow> 'i Account \<Rightarrow> JetStreamAccountLimits option
     \<Rightarrow> error option \<times> jetStream option \<times> 'i Account \<times> rlog list" where
  "EnableJetStream env rc h sjs a lim =
     (if \<not> srv a then (Some ErrAccountNotRegistered, sjs, a, [])
      else case sjs of
        None \<Rightarrow> (Some ErrNotEnabled, None, a, [])
      | Some j \<Rightarrow>
          (let lims = (case lim of None \<Rightarrow> dynamicAccountLimits j | Some l \<Rightarrow> l) in
           case sufficientResources j (Some lims) of
             Some err \<Rightarrow> (Some err, Some j, a, [])
           | None \<Rightarrow>
               if accounts j (aName a) \<noteq> None then (Some ErrAlreadyEnabledForAccount, Some j, a, [])
               else
                 (let jsa = \<lparr>account = aName a, limits = lims, jsaMemReserved = 0, memUsed = 0,
                             jsaStoreReserved = 0, storeUsed = 0,
                             storeDir = pathJoin (StoreDir (config j)) (aName a),
                             streams = Map.empty, templates = None, store = None\<rparr>;
                      j1 = reserveResources (j\<lparr>accounts := (accounts j)(aName a \<mapsto> jsa)\<rparr>) (Some lims);
                      a1 = a\<lparr>js := True\<rparr>
                  in case addImports h allJsExports (svcImports a1) of
                       (Some err, i) \<Rightarrow> (Some (ErrServiceImports err), Some j1, a1\<lparr>svcImports := i\<rparr>, [])
                     | (None, i) \<Rightarrow>
                         (let a2 = a1\<lparr>svcImports := i\<rparr> in
                          case (if sdirMissing h then MkdirAll h else None) of
                            Some err \<Rightarrow> (Some (ErrCreateStreamsDir err), Some j1, a2, [])
                          | None \<Rightarrow>
                              (case recoverState env rc h a2 jsa of
                                 (r, jsa1, lg) \<Rightarrow>
                                   (r, Some (j1\<lparr>accounts := (accounts j1)(aName a \<mapsto> jsa1)\<rparr>), a2, lg))))))"


text \<open>
  \<^verbatim>\<open>jetStream.disableJetStream\<close>. Its last step, \<^verbatim>\<open>jsa.delete()\<close>, works on the
  \<open>jsAccount\<close> that has just been taken out of the ledger: it stops its streams and sets
  its template map to nil, and nothing of that object remains in the ledger.
\<close>

definition disableJetStream :: "jetStream \<Rightarrow> jsAccount option \<Rightarrow> error option \<times> jetStream" where
  "disableJetStream j jopt =
     (case jopt of
        None \<Rightarrow> (Some ErrNotEnabledForAccount, j)
      | Some jsa \<Rightarrow>
          (None, releaseResources (j\<lparr>accounts := (accounts j)(account jsa := None)\<rparr>) (Some (limits jsa))))"

definition DisableJetStream ::
  "'i host \<Rightarrow> jetStream option \<Rightarrow> 'i Account \<Rightarrow> error option \<times> jetStream option \<times> 'i Account" where
  "DisableJetStream h sjs a =
     (let a1 = a\<lparr>js := False\<rparr> in
      if \<not> srv a then (Some ErrAccountNotRegistered, sjs, a1)
      else case sjs of
        None \<Rightarrow> (Some ErrNotEnabled, None, a1)
      | Some j \<Rightarrow>
          (let a2 = a1\<lparr>svcImports := foldl (\<lambda>i export. removeServiceImport h export i) (svcImports a1) allJsExports\<rparr>
           in case disableJetStream j (accounts j (aName a)) of
                (r, j1) \<Rightarrow> (r, Some j1, a2)))"

subsection \<open>Notions used in the statements\<close>

text \<open>The limits an operation works with: the given ones, or the dynamic limits for nil.\<close>

definition effectiveLimits :: "jetStream \<Rightarrow> JetStreamAccountLimits option \<Rightarrow> JetStreamAccountLimits" where
  "effectiveLimits j lim = (case lim of None \<Rightarrow> dynamicAccountLimits j | Some l \<Rightarrow> l)"

text \<open>
  The admission condition in the words of the specification: JetStream is enabled on the
  server, the account is not in the ledger, and the reservation plus the limit stays
  within the server's maximum, for memory and for store.
\<close>

definition admissible :: "jetStream option \<Rightarrow> string \<Rightarrow> JetStreamAccountLimits option \<Rightarrow> bool" where
  "admissible sjs n lim =
     (case sjs of
        None \<Rightarrow> False
      | Some j \<Rightarrow>
          accounts j n = None
          \<and> \<not> cfgMaxMemory (config j) <s memReserved j + MaxMemory (effectiveLimits j lim)
          \<and> \<not> cfgMaxStore (config j) <s storeReserved j + MaxStore (effectiveLimits j lim))"

text \<open>
  Stream creation and deletion live outside the file; some statements need that they
  leave the limits stored in the account alone.
\<close>

definition keepsLimits :: "'i collab \<Rightarrow> bool" where
  "keepsLimits env =
     ((\<forall>a jsa cfg. limits (snd (AddStream env a jsa cfg)) = limits jsa)
      \<and> (\<forall>mset jsa. limits (snd (msetDelete env mset jsa)) = limits jsa))"





subsection \<open>Example states\<close>

definition exLimits :: "int64 \<Rightarrow> int64 \<Rightarrow> JetStreamAccountLimits" where
  "exLimits m st = \<lparr>MaxMemory = m, MaxStore = st, MaxStreams = -1, MaxConsumers = -1\<rparr>"

definition exJsa :: "string \<Rightarrow> JetStreamAccountLimits \<Rightarrow> jsAccount" where
  "exJsa n l = \<lparr>account = n, limits = l, jsaMemReserved = 0, memUsed = 0,
      jsaStoreReserved = 0, storeUsed = 0, storeDir = ''/js/'' @ n,
      streams = Map.empty, templates = None, store = None\<rparr>"

definition exStreamConfig :: StreamConfig where
  "exStreamConfig = \<lparr>scName = ''S'', Subjects = [''foo''], Storage = MemoryStorage, MaxBytes = 0,
      Replicas = 1, scMaxConsumers = 5, Template = []\<rparr>"

definition exConfig :: JetStreamConfig where
  "exConfig = \<lparr>cfgMaxMemory = 100, cfgMaxStore = 100, StoreDir = ''/js''\<rparr>"

definition exAccount :: "string \<Rightarrow> bool \<Rightarrow> string list \<Rightarrow> string list Account" where
  "exAccount n p i = \<lparr>aName = n, srv = True, js = p, svcImports = i\<rparr>"


definition exHost :: "bool \<Rightarrow> error option \<Rightarrow> string list host" where
  "exHost missing mk = \<lparr>AddServiceImport = (\<lambda>export i. Inr (i @ [export])),
      removeServiceImport = (\<lambda>export i. removeAll export i),
      sdirMissing = missing, MkdirAll = mk, tdirEntries = None, sdirEntries = []\<rparr>"

definition exCollab :: "string list collab" where
  "exCollab = \<lparr>checkStreamCfg = (\<lambda>cfg. Inr cfg), eventsEnabled = True,
      processSub = (\<lambda>subject sid. None),
      storeStore = (\<lambda>st t. None), storeDelete = (\<lambda>st t. None),
      AddStream = (\<lambda>a jsa cfg. (Inr cfg, jsa\<lparr>streams := (streams jsa)(scName cfg \<mapsto> cfg)\<rparr>)),
      msetDelete = (\<lambda>mset jsa. (None, jsa\<lparr>streams := (streams jsa)(scName mset := None)\<rparr>))\<rparr>"

definition exRecov :: "(string \<Rightarrow> string \<Rightarrow> string) \<Rightarrow> string recov" where
  "exRecov hh = \<lparr>hash64 = hh, unmarshalTemplate = (\<lambda>buf. Inl (External ''json'')),
      unmarshalStream = (\<lambda>buf. Inl (External ''json'')),
      unmarshalConsumer = (\<lambda>buf. Inr buf),
      AddConsumer = (\<lambda>mset cfg. None), readStoredState = (\<lambda>mset cfg. None)\<rparr>"

definition exLedger :: "int64 \<Rightarrow> jetStream" where
  "exLedger m = \<lparr>config = exConfig, accounts = Map.empty, memReserved = m, storeReserved = 0\<rparr>"


definition exLedgerAu :: jetStream where
  "exLedgerAu = \<lparr>config = exConfig, accounts = [''A'' \<mapsto> exJsa ''A'' (exLimits (-1) (-1))],
      memReserved = 0, storeReserved = 0\<rparr>"

section \<open>Properties\<close>

subsection \<open>Per-stream admission\<close>

text \<open>
  Once the stream-count and replica checks are passed, a configuration that asks for a
  positive number of consumers above the account's \<open>MaxConsumers\<close> is rejected, and every
  other configuration leaves with its \<open>MaxConsumers\<close> set to the account's.
\<close>

lemma checkLimits_consumers:
  assumes "\<not> (0 < MaxStreams (limits jsa) \<and> MaxStreams (limits jsa) \<le> int (card (dom (streams jsa))))"
    and "Replicas cfg = 1"
  shows "(0 < scMaxConsumers cfg \<and> MaxConsumers (limits jsa) < scMaxConsumers cfg
            \<longrightarrow> checkLimits jsa cfg = (Some ErrMaxConsumersExceeds, cfg))
       \<and> (\<not> (0 < scMaxConsumers cfg \<and> MaxConsumers (limits jsa) < scMaxConsumers cfg)
            \<longrightarrow> scMaxConsumers (snd (checkLimits jsa cfg)) = MaxConsumers (limits jsa)
              \<and> fst (checkLimits jsa cfg) \<noteq> Some ErrMaxConsumersExceeds)"
  using assms by (auto simp: checkLimits_def Let_def split: StorageType.splits)

text \<open>
  Claim C2. The claim ends: when the account's \<open>MaxConsumers\<close> limit is \<open>-1\<close> (unlimited),
  no stream is rejected on consumer count. The comparison in \<^verbatim>\<open>checkLimits\<close> does not
  exempt a non-positive account limit, as the stream-count check before it does: for an
  account with \<open>MaxConsumers = -1\<close> and no streams, a one-replica stream that asks for
  five consumers is rejected with the consumer-limit error.
\<close>

theorem checkLimits_unlimited_account_rejects:
  "MaxConsumers (limits (exJsa ''A'' (exLimits (-1) (-1)))) = -1
   \<and> checkLimits (exJsa ''A'' (exLimits (-1) (-1))) exStreamConfig
       = (Some ErrMaxConsumersExceeds, exStreamConfig)"
  by (simp add: checkLimits_def exJsa_def exLimits_def exStreamConfig_def)

subsection \<open>Updating the limits of an account\<close>



subsection \<open>Reservations and the limits kept in an account\<close>

lemma reserveResources_fields:
  "memReserved (reserveResources j (Some l)) = (if 0 <s MaxMemory l then memReserved j + MaxMemory l else memReserved j)"
  "storeReserved (reserveResources j (Some l)) = (if 0 <s MaxStore l then storeReserved j + MaxStore l else storeReserved j)"
  "accounts (reserveResources j (Some l)) = accounts j"
  "config (reserveResources j (Some l)) = config j"
  by (simp_all add: reserveResources_def Let_def)

lemma releaseResources_fields:
  "memReserved (releaseResources j (Some l)) = (if 0 <s MaxMemory l then memReserved j - MaxMemory l else memReserved j)"
  "storeReserved (releaseResources j (Some l)) = (if 0 <s MaxStore l then storeReserved j - MaxStore l else storeReserved j)"
  "accounts (releaseResources j (Some l)) = accounts j"
  "config (releaseResources j (Some l)) = config j"
  by (simp_all add: releaseResources_def Let_def)

text \<open>
  Nothing in the template operations or in the recovery scan writes the limits of the
  account, provided stream creation and deletion do not.
\<close>

lemma deleteStreams_limits:
  "keepsLimits env \<Longrightarrow> deleteStreams env msets jsa le = (r, jsa', evs) \<Longrightarrow> limits jsa' = limits jsa"
proof (induction msets arbitrary: jsa le r jsa' evs)
  case Nil
  then show ?case by simp
next
  case (Cons m ms)
  obtain r1 j1 where md: "msetDelete env m jsa = (r1, j1)" by (cases "msetDelete env m jsa")
  have "limits (snd (msetDelete env m jsa)) = limits jsa"
    using Cons.prems(1) by (simp add: keepsLimits_def)
  with md have l1: "limits j1 = limits jsa" by simp
  obtain r2 j2 e2 where ds: "deleteStreams env ms j1 (case r1 of None \<Rightarrow> le | Some e \<Rightarrow> Some e) = (r2, j2, e2)"
    by (cases "deleteStreams env ms j1 (case r1 of None \<Rightarrow> le | Some e \<Rightarrow> Some e)")
  from Cons.IH [OF Cons.prems(1) ds] l1 have "limits j2 = limits jsa" by simp
  moreover from Cons.prems(2) md ds have "jsa' = j2" by (cases r1) auto
  ultimately show ?case by simp
qed

lemma Delete_limits:
  assumes "keepsLimits env" and "Delete env topt (Some jsa) a = (r, t', jopt, evs)"
  shows "\<exists>jsa'. jopt = Some jsa' \<and> limits jsa' = limits jsa"
proof (cases topt)
  case None
  with assms(2) show ?thesis by (auto simp: Delete_def)
next
  case (Some t0)
  have ds: "\<And>ms j le r j' e. deleteStreams env ms j le = (r, j', e) \<Longrightarrow> limits j' = limits j"
    using deleteStreams_limits [OF assms(1)] by blast
  show ?thesis
    using assms(2) Some
    by (auto simp: Delete_def Let_def split: option.splits prod.splits if_splits dest!: ds)
qed

lemma DeleteStreamTemplate_limits:
  assumes "keepsLimits env" and "DeleteStreamTemplate env a jsa name = (r, jsa', evs)"
  shows "limits jsa' = limits jsa"
  using assms(2) Delete_limits [OF assms(1)]
  by (fastforce simp: DeleteStreamTemplate_def split: sum.splits prod.splits option.splits)

lemma createTemplateSubscriptions_limits:
  assumes "keepsLimits env" and "createTemplateSubscriptions env a jsa t = (r, jsa', evs)"
  shows "limits jsa' = limits jsa"
  using assms(2) DeleteStreamTemplate_limits [OF assms(1)]
  by (fastforce simp: createTemplateSubscriptions_def split: if_splits prod.splits option.splits)

lemma AddStreamTemplate_limits:
  assumes "keepsLimits env" and "AddStreamTemplate env a jsa tcfg = (r, jsa', evs)"
  shows "limits jsa' = limits jsa"
proof -
  have cs: "\<And>j t r j' e. createTemplateSubscriptions env a j t = (r, j', e) \<Longrightarrow> limits j' = limits j"
    using createTemplateSubscriptions_limits [OF assms(1)] by blast
  have dl: "\<And>t j r t' jo e. Delete env (Some t) (Some j) a = (r, t', jo, e) \<Longrightarrow> \<exists>j'. jo = Some j' \<and> limits j' = limits j"
    using Delete_limits [OF assms(1)] by blast
  show ?thesis
    using assms(2)
    by (auto simp: AddStreamTemplate_def Let_def split: option.splits sum.splits prod.splits if_splits outcome.splits
        dest!: cs dl)
qed

lemma recoverTemplate_limits:
  assumes "keepsLimits env" and "recoverTemplate env rc a tdir d jsa = (r, jsa', lg)"
  shows "limits jsa' = limits jsa"
proof -
  have ast: "\<And>c r j' e. AddStreamTemplate env a jsa c = (r, j', e) \<Longrightarrow> limits j' = limits jsa"
    using AddStreamTemplate_limits [OF assms(1)] by blast
  show ?thesis
    using assms(2)
    by (auto simp: recoverTemplate_def split: fstat.splits sum.splits option.splits prod.splits if_splits outcome.splits
        dest!: ast)
qed

lemma recoverTemplates_limits:
  "keepsLimits env \<Longrightarrow> recoverTemplates env rc a tdir ds jsa = (r, jsa', lg) \<Longrightarrow> limits jsa' = limits jsa"
proof (induction ds arbitrary: jsa r jsa' lg)
  case Nil
  then show ?case by simp
next
  case (Cons d ds)
  obtain r1 j1 l1 where rt: "recoverTemplate env rc a tdir d jsa = (r1, j1, l1)"
    by (cases "recoverTemplate env rc a tdir d jsa")
  have l1: "limits j1 = limits jsa" using recoverTemplate_limits [OF Cons.prems(1) rt] .
  show ?case
  proof (cases r1)
    case None
    obtain r2 j2 l2 where rs: "recoverTemplates env rc a tdir ds j1 = (r2, j2, l2)"
      by (cases "recoverTemplates env rc a tdir ds j1")
    from Cons.IH [OF Cons.prems(1) rs] l1 have "limits j2 = limits jsa" by simp
    moreover from Cons.prems(2) rt rs None have "jsa' = j2" by simp
    ultimately show ?thesis by simp
  next
    case (Some p)
    with Cons.prems(2) rt l1 show ?thesis by simp
  qed
qed

lemma recoverTemplates_result:
  "recoverTemplates env rc a tdir ds jsa = (r, jsa', lg) \<Longrightarrow> r = None \<or> r = Some NilDereference"
proof (induction ds arbitrary: jsa r jsa' lg)
  case Nil
  then show ?case by simp
next
  case (Cons d ds)
  obtain r1 j1 l1 where rt: "recoverTemplate env rc a tdir d jsa = (r1, j1, l1)"
    by (cases "recoverTemplate env rc a tdir d jsa")
  then have r1: "r1 = None \<or> r1 = Some NilDereference"
    by (auto simp: recoverTemplate_def split: fstat.splits sum.splits option.splits prod.splits if_splits outcome.splits)
  show ?case
  proof (cases r1)
    case None
    obtain r2 j2 l2 where rs: "recoverTemplates env rc a tdir ds j1 = (r2, j2, l2)"
      by (cases "recoverTemplates env rc a tdir ds j1")
    from Cons.IH [OF rs] have "r2 = None \<or> r2 = Some NilDereference" .
    moreover from Cons.prems rt rs None have "r = r2" by simp
    ultimately show ?thesis by simp
  next
    case (Some p)
    with Cons.prems rt r1 show ?thesis by simp
  qed
qed

lemma addStreamNameToTemplate_limits:
  "addStreamNameToTemplate jsa tname mname = (r, jsa') \<Longrightarrow> limits jsa' = limits jsa"
  by (auto simp: addStreamNameToTemplate_def split: option.splits)

lemma recoverStream_limits:
  assumes "keepsLimits env" and "recoverStream env rc a sdir dc jsa = (jsa', lg)"
  shows "limits jsa' = limits jsa"
proof -
  have as: "\<And>j c. limits (snd (AddStream env a j c)) = limits j"
    using assms(1) by (simp add: keepsLimits_def)
  have as': "\<And>j c r j'. AddStream env a j c = (r, j') \<Longrightarrow> limits j' = limits j"
    using as by (metis snd_conv)
  have an: "\<And>t m r j'. addStreamNameToTemplate jsa t m = (r, j') \<Longrightarrow> limits j' = limits jsa"
    by (rule addStreamNameToTemplate_limits)
  show ?thesis
    using assms(2)
    by (auto simp: recoverStream_def split: fstat.splits sum.splits option.splits prod.splits if_splits outcome.splits
        dest!: as' an)
qed

lemma recoverStreams_limits:
  "keepsLimits env \<Longrightarrow> recoverStreams env rc a sdir dcs jsa = (jsa', lg) \<Longrightarrow> limits jsa' = limits jsa"
proof (induction dcs arbitrary: jsa jsa' lg)
  case Nil
  then show ?case by simp
next
  case (Cons dc dcs)
  obtain j1 l1 where rt: "recoverStream env rc a sdir dc jsa = (j1, l1)"
    by (cases "recoverStream env rc a sdir dc jsa")
  have l1: "limits j1 = limits jsa" using recoverStream_limits [OF Cons.prems(1) rt] .
  obtain j2 l2 where rs: "recoverStreams env rc a sdir dcs j1 = (j2, l2)"
    by (cases "recoverStreams env rc a sdir dcs j1")
  from Cons.IH [OF Cons.prems(1) rs] l1 have "limits j2 = limits jsa" by simp
  moreover from Cons.prems(2) rt rs have "jsa' = j2" by simp
  ultimately show ?case by simp
qed

lemma recoverState_limits:
  assumes "keepsLimits env" and "recoverState env rc h a jsa = (r, jsa', lg)"
  shows "limits jsa' = limits jsa"
proof -
  have rt: "\<And>p ds r j' l. recoverTemplates env rc a p ds jsa = (r, j', l) \<Longrightarrow> limits j' = limits jsa"
    using recoverTemplates_limits [OF assms(1)] by blast
  have rs: "\<And>p ds j j' l. recoverStreams env rc a p ds j = (j', l) \<Longrightarrow> limits j' = limits j"
    using recoverStreams_limits [OF assms(1)] by blast
  show ?thesis
    using assms(2)
    by (auto simp: recoverState_def split: option.splits prod.splits dest!: rt rs)
qed

lemma recoverState_result:
  assumes "recoverState env rc h a jsa = (r, jsa', lg)"
  shows "r = None \<or> r = Some NilDereference"
proof -
  have rt: "\<And>p ds r j' l. recoverTemplates env rc a p ds jsa = (r, j', l) \<Longrightarrow> r = None \<or> r = Some NilDereference"
    using recoverTemplates_result by blast
  show ?thesis
    using assms
    by (auto simp: recoverState_def split: option.splits prod.splits dest!: rt)
qed

subsection \<open>Where the recovery scan panics\<close>








subsection \<open>Enabling an account\<close>




lemma EnableJetStream_finish:
  assumes "srv a" and "admissible sjs (aName a) lim"
    and "fst (addImports h allJsExports (svcImports a)) = None"
    and "sdirMissing h \<longrightarrow> MkdirAll h = None"
    and "EnableJetStream env rc h sjs a lim = (r, sjs', a', lg)"
  shows "r = None \<or> r = Some NilDereference"
proof -
  have rs: "\<And>a2 jsa r j' l. recoverState env rc h a2 jsa = (r, j', l) \<Longrightarrow> r = None \<or> r = Some NilDereference"
    using recoverState_result by blast
  show ?thesis
    using assms
    by (auto simp: EnableJetStream_def admissible_def effectiveLimits_def sufficientResources_def Let_def
        split: option.splits prod.splits if_splits dest!: rs)
qed



lemma EnableJetStream_limits:
  assumes "keepsLimits env" and "EnableJetStream env rc h (Some j) a lim = (None, sjs', a', lg)"
  shows "\<exists>j' jsa'. sjs' = Some j' \<and> accounts j' (aName a') = Some jsa' \<and> limits jsa' = effectiveLimits j lim
           \<and> srv a'
           \<and> memReserved j' = (if 0 <s MaxMemory (effectiveLimits j lim) then memReserved j + MaxMemory (effectiveLimits j lim) else memReserved j)
           \<and> storeReserved j' = (if 0 <s MaxStore (effectiveLimits j lim) then storeReserved j + MaxStore (effectiveLimits j lim) else storeReserved j)"
proof -
  have rs: "\<And>a2 jsa r j' l. recoverState env rc h a2 jsa = (r, j', l) \<Longrightarrow> limits j' = limits jsa"
    using recoverState_limits [OF assms(1)] by blast
  show ?thesis
    using assms(2)
    by (auto simp: EnableJetStream_def effectiveLimits_def Let_def reserveResources_fields
        split: option.splits prod.splits if_splits dest!: rs)
qed

lemma addImports_exHost:
  "addImports (exHost m k) es i = (None, i @ es)"
  by (induction es arbitrary: i) (simp_all add: exHost_def)






subsection \<open>Enabling and disabling with non-positive limits\<close>

lemma keepsLimits_exCollab: "keepsLimits exCollab"
  by (simp add: keepsLimits_def exCollab_def)

lemma ex_enable_Au:
  "EnableJetStream exCollab (exRecov (\<lambda>p b. [])) (exHost False None) (Some (exLedger 0))
       (exAccount ''A'' False []) (Some (exLimits (-1) (-1)))
     = (None, Some exLedgerAu, exAccount ''A'' True allJsExports, [])"
  by (simp add: EnableJetStream_def sufficientResources_def reserveResources_def Let_def
      addImports_exHost recoverState_def pathJoin_def Clean_def
      exLedger_def exLedgerAu_def exAccount_def exLimits_def exConfig_def exJsa_def word_sless_alt)
     (simp add: exHost_def)

text \<open>
  Claim C9. \<^verbatim>\<open>reserveResources\<close> and \<^verbatim>\<open>releaseResources\<close> move the server's memory
  reservation by the memory limit exactly when that limit is positive, and the store
  reservation by the store limit exactly when that is positive; otherwise the
  reservation stays. Hence, for limits whose memory and store parts are both
  non-positive, enabling an account and then disabling it returns nil and leaves both
  reservations of the server as they were before the account was enabled (stream
  creation and deletion, outside the file, being taken to leave the account's limits
  alone).
\<close>

theorem reservations_only_for_positive_limits:
  "memReserved (reserveResources j (Some l)) = (if 0 <s MaxMemory l then memReserved j + MaxMemory l else memReserved j)
   \<and> storeReserved (reserveResources j (Some l)) = (if 0 <s MaxStore l then storeReserved j + MaxStore l else storeReserved j)
   \<and> memReserved (releaseResources j (Some l)) = (if 0 <s MaxMemory l then memReserved j - MaxMemory l else memReserved j)
   \<and> storeReserved (releaseResources j (Some l)) = (if 0 <s MaxStore l then storeReserved j - MaxStore l else storeReserved j)
   \<and> (keepsLimits env \<and> \<not> 0 <s MaxMemory l \<and> \<not> 0 <s MaxStore l
        \<and> EnableJetStream env rc h (Some j) a (Some l) = (None, sjs1, a1, lg)
        \<and> DisableJetStream h sjs1 a1 = (r, sjs2, a2)
      \<longrightarrow> r = None \<and> (\<exists>j2. sjs2 = Some j2 \<and> memReserved j2 = memReserved j \<and> storeReserved j2 = storeReserved j))"
proof (intro conjI impI)
  assume h: "keepsLimits env \<and> \<not> 0 <s MaxMemory l \<and> \<not> 0 <s MaxStore l
        \<and> EnableJetStream env rc h (Some j) a (Some l) = (None, sjs1, a1, lg)
        \<and> DisableJetStream h sjs1 a1 = (r, sjs2, a2)"
  then obtain j1 jsa1 where e: "sjs1 = Some j1" "accounts j1 (aName a1) = Some jsa1" "limits jsa1 = l"
      "srv a1" "memReserved j1 = memReserved j" "storeReserved j1 = storeReserved j"
    using EnableJetStream_limits [of env rc h j a "Some l" sjs1 a1 lg]
    by (auto simp: effectiveLimits_def)
  from h have d: "DisableJetStream h sjs1 a1 = (r, sjs2, a2)" by simp
  from d e h show "r = None"
    by (auto simp: DisableJetStream_def disableJetStream_def Let_def)
  from d e h show "\<exists>j2. sjs2 = Some j2 \<and> memReserved j2 = memReserved j \<and> storeReserved j2 = storeReserved j"
    by (auto simp: DisableJetStream_def disableJetStream_def Let_def releaseResources_fields)
qed (simp_all add: reserveResources_fields releaseResources_fields)

text \<open>An account with both limits at \<open>-1\<close> on a server with nothing reserved.\<close>

theorem reservations_only_for_positive_limits_witness:
  "keepsLimits exCollab
   \<and> \<not> 0 <s MaxMemory (exLimits (-1) (-1)) \<and> \<not> 0 <s MaxStore (exLimits (-1) (-1))
   \<and> EnableJetStream exCollab (exRecov (\<lambda>p b. [])) (exHost False None) (Some (exLedger 0))
       (exAccount ''A'' False []) (Some (exLimits (-1) (-1)))
     = (None, Some exLedgerAu, exAccount ''A'' True allJsExports, [])
   \<and> fst (DisableJetStream (exHost False None) (Some exLedgerAu) (exAccount ''A'' True allJsExports)) = None
   \<and> map_option memReserved (fst (snd (DisableJetStream (exHost False None) (Some exLedgerAu)
         (exAccount ''A'' True allJsExports)))) = Some (memReserved (exLedger 0))
   \<and> map_option storeReserved (fst (snd (DisableJetStream (exHost False None) (Some exLedgerAu)
         (exAccount ''A'' True allJsExports)))) = Some (storeReserved (exLedger 0))"
proof -
  obtain r sjs2 a2 where d: "DisableJetStream (exHost False None) (Some exLedgerAu)
         (exAccount ''A'' True allJsExports) = (r, sjs2, a2)"
    by (cases "DisableJetStream (exHost False None) (Some exLedgerAu) (exAccount ''A'' True allJsExports)")
  have n: "\<not> 0 <s MaxMemory (exLimits (-1) (-1))" "\<not> 0 <s MaxStore (exLimits (-1) (-1))"
    by (simp_all add: exLimits_def word_sless_alt)
  from reservations_only_for_positive_limits [of "exLedger 0" "exLimits (-1) (-1)" exCollab
      "exRecov (\<lambda>p b. [])" "exHost False None" "exAccount ''A'' False []" "Some exLedgerAu"
      "exAccount ''A'' True allJsExports" "[]" r sjs2 a2]
    keepsLimits_exCollab n ex_enable_Au d
  have "r = None \<and> (\<exists>j2. sjs2 = Some j2 \<and> memReserved j2 = memReserved (exLedger 0)
          \<and> storeReserved j2 = storeReserved (exLedger 0))"
    by blast
  with keepsLimits_exCollab n ex_enable_Au d show ?thesis by auto
qed

subsection \<open>Disabling an account that is not enabled\<close>





end
